theory Spec2Isabelle
  imports Complex_Main
begin

section \<open>JavaScript strings\<close>

text \<open>
  A JavaScript string is modelled as a \<^typ>\<open>string\<close>: a list of code units below 256.
  HTTP header values reach the handlers in exactly this form; for request bodies the
  model covers the strings whose code units are all below 256.
\<close>

definition is_whitespace :: "char \<Rightarrow> bool" where
  \<comment> \<open>the white space and line terminators that \<open>String.prototype.trim\<close> removes, below 256\<close>
  "is_whitespace c = (of_char c \<in> {9, 10, 11, 12, 13, 32, 160 :: nat})"

definition trim :: "string \<Rightarrow> string" where
  "trim s = rev (dropWhile is_whitespace (rev (dropWhile is_whitespace s)))"

definition toLowerCase_char :: "char \<Rightarrow> char" where
  "toLowerCase_char c =
     (let n = of_char c :: nat
      in if (65 \<le> n \<and> n \<le> 90) \<or> (192 \<le> n \<and> n \<le> 222 \<and> n \<noteq> 215)
         then char_of (n + 32) else c)"

definition toLowerCase :: "string \<Rightarrow> string" where
  "toLowerCase s = map toLowerCase_char s"

fun split :: "char \<Rightarrow> string \<Rightarrow> string list" where
  \<comment> \<open>\<open>s.split(sep)\<close> for a separator of one character: never the empty list\<close>
  "split sep [] = [[]]"
| "split sep (c # cs) =
     (if c = sep then [] # split sep cs
      else (case split sep cs of [] \<Rightarrow> [[c]] | w # ws \<Rightarrow> (c # w) # ws))"

fun join :: "string \<Rightarrow> string list \<Rightarrow> string" where
  "join sep [] = []"
| "join sep [x] = x"
| "join sep (x # y # ys) = x @ sep @ join sep (y # ys)"

definition startsWith :: "string \<Rightarrow> string \<Rightarrow> bool" where
  "startsWith s p = (take (length p) s = p)"

definition endsWith :: "string \<Rightarrow> string \<Rightarrow> bool" where
  "endsWith s p = (length p \<le> length s \<and> drop (length s - length p) s = p)"

definition strip_trailing_slashes :: "string \<Rightarrow> string" where
  \<comment> \<open>\<open>s.replace(/\/+$/, '')\<close>\<close>
  "strip_trailing_slashes s = rev (dropWhile (\<lambda>c. c = CHR ''/'') (rev s))"

section \<open>JavaScript values\<close>

text \<open>
  The values of a payload field or of a query parameter are the JSON scalars and
  \<open>undefined\<close>; arrays and objects as field values are outside the model. A finite
  number is represented by its rational value (negative zero is identified with zero,
  which no operation below tells apart); the three non-finite doubles are separate
  constructors.
\<close>

datatype jsnum = NaN | PosInf | NegInf | Fin rat

datatype jsval =
    JUndefined
  | JNull
  | JBool bool
  | JNum jsnum
  | JStr string

type_synonym jsobject = "(string \<times> jsval) list"

definition obj_get :: "jsobject \<Rightarrow> string \<Rightarrow> jsval option" where
  \<comment> \<open>\<open>None\<close>: the object has no such key\<close>
  "obj_get obj k = map_of obj k"

fun obj_set :: "string \<Rightarrow> jsval \<Rightarrow> jsobject \<Rightarrow> jsobject" where
  \<comment> \<open>\<open>obj[k] = v\<close>: an existing key keeps its place, a new key is appended\<close>
  "obj_set k v [] = [(k, v)]"
| "obj_set k v ((k', v') # rest) =
     (if k' = k then (k, v) # rest else (k', v') # obj_set k v rest)"

definition isFinite :: "jsnum \<Rightarrow> bool" where
  "isFinite n = (case n of Fin _ \<Rightarrow> True | _ \<Rightarrow> False)"

definition trunc :: "jsnum \<Rightarrow> jsnum" where
  \<comment> \<open>\<open>Math.trunc\<close>\<close>
  "trunc n = (case n of Fin q \<Rightarrow> Fin (of_int (if q < 0 then \<lceil>q\<rceil> else \<lfloor>q\<rfloor>)) | _ \<Rightarrow> n)"

definition num_truthy :: "jsnum \<Rightarrow> bool" where
  "num_truthy n = (n \<noteq> NaN \<and> n \<noteq> Fin 0)"

fun num_le :: "jsnum \<Rightarrow> jsnum \<Rightarrow> bool" where
  "num_le NaN _ = False"
| "num_le _ NaN = False"
| "num_le NegInf _ = True"
| "num_le _ PosInf = True"
| "num_le (Fin a) (Fin b) = (a \<le> b)"
| "num_le _ _ = False"

definition Math_max :: "jsnum \<Rightarrow> jsnum \<Rightarrow> jsnum" where
  "Math_max a b = (if a = NaN \<or> b = NaN then NaN else if num_le a b then b else a)"

definition Math_min :: "jsnum \<Rightarrow> jsnum \<Rightarrow> jsnum" where
  "Math_min a b = (if a = NaN \<or> b = NaN then NaN else if num_le a b then a else b)"

section \<open>The runtime and the configuration\<close>

text \<open>
  What the program takes from its platform and its environment is a parameter of the
  model: the conversions between numbers and strings, \<open>decodeURIComponent\<close> (which
  throws on a malformed escape), pgcrypto's \<open>crypt\<close>, PostgreSQL's \<open>lower\<close>, and the
  name of the session cookie (\<open>SESSION_COOKIE_NAME\<close>, by default \<open>cm_session\<close>).
\<close>

datatype js_exn = Exn (exn_name: string) (exn_message: string)

record env =
  NumberToString :: "jsnum \<Rightarrow> string"
  StringToNumber :: "string \<Rightarrow> jsnum"
  decodeURIComponent :: "string \<Rightarrow> js_exn + string"
  crypt :: "string \<Rightarrow> string \<Rightarrow> string"
  sql_lower :: "string \<Rightarrow> string"
  SESSION_COOKIE_NAME :: string

definition ToString :: "env \<Rightarrow> jsval \<Rightarrow> string" where
  \<comment> \<open>\<open>String(v)\<close>\<close>
  "ToString e v =
     (case v of
        JUndefined \<Rightarrow> ''undefined''
      | JNull \<Rightarrow> ''null''
      | JBool b \<Rightarrow> (if b then ''true'' else ''false'')
      | JNum n \<Rightarrow> NumberToString e n
      | JStr s \<Rightarrow> s)"

definition ToNumber :: "env \<Rightarrow> jsval \<Rightarrow> jsnum" where
  \<comment> \<open>\<open>Number(v)\<close>\<close>
  "ToNumber e v =
     (case v of
        JUndefined \<Rightarrow> NaN
      | JNull \<Rightarrow> Fin 0
      | JBool b \<Rightarrow> Fin (if b then 1 else 0)
      | JNum n \<Rightarrow> n
      | JStr s \<Rightarrow> StringToNumber e s)"

section \<open>The relational store\<close>

text \<open>
  The tables the handlers read and write, with the columns their statements name. The
  schema is not part of the repository: a nullable column is an \<open>option\<close>, and a column
  that an \<open>INSERT\<close> does not name is stored as \<open>NULL\<close>. \<open>clock\<close> is the store's \<open>NOW()\<close>.
\<close>

record user_account =
  user_id :: int
  username :: string
  name :: "string option"
  status :: "string option"
  password_hash :: "string option"
  password_must_change :: "bool option"
  created_at :: nat
  last_login_at :: "nat option"

record user_session =
  session_id :: string
  session_user_id :: int
  last_seen_at :: "nat option"

record database =
  user_accounts :: "user_account list"
  user_sessions :: "user_session list"
  departments :: "(int \<times> string) list"
  statuses :: "(int \<times> string) list"
  clock :: nat

text \<open>
  A store holds the committed database, the working copy of the transaction that is open
  on the checked-out client (if any), the number of clients checked out of the pool, the
  statements sent on a client so far, and a schedule of failures: the head of \<open>faults\<close>
  says whether the next round trip to the store throws (and with which message); an
  empty schedule means no failure. A round trip that throws changes no data.
\<close>

datatype stmt = BEGIN | STATEMENT | COMMIT | ROLLBACK

record store =
  committed :: database
  txn :: "database option"
  checked_out :: nat
  client_log :: "stmt list"
  faults :: "string option list"

definition next_fault :: "store \<Rightarrow> string option \<times> store" where
  "next_fault s = (case faults s of [] \<Rightarrow> (None, s) | f # fs \<Rightarrow> (f, s\<lparr>faults := fs\<rparr>))"

definition pool_query :: "(database \<Rightarrow> 'r \<times> database) \<Rightarrow> store \<Rightarrow> (js_exn + 'r) \<times> store" where
  \<comment> \<open>\<open>pool.query\<close>: one statement, committed at once\<close>
  "pool_query q s =
     (case next_fault s of
        (Some m, s') \<Rightarrow> (Inl (Exn ''error'' m), s')
      | (None, s') \<Rightarrow> (case q (committed s') of (r, d) \<Rightarrow> (Inr r, s'\<lparr>committed := d\<rparr>)))"

definition pool_connect :: "store \<Rightarrow> (js_exn + unit) \<times> store" where
  "pool_connect s =
     (case next_fault s of
        (Some m, s') \<Rightarrow> (Inl (Exn ''error'' m), s')
      | (None, s') \<Rightarrow> (Inr (), s'\<lparr>checked_out := Suc (checked_out s')\<rparr>))"

definition client_release :: "store \<Rightarrow> store" where
  "client_release s = s\<lparr>checked_out := checked_out s - 1\<rparr>"

definition send :: "stmt \<Rightarrow> store \<Rightarrow> string option \<times> store" where
  \<comment> \<open>one round trip on the client: the statement is logged, then answered or not\<close>
  "send st s = next_fault (s\<lparr>client_log := client_log s @ [st]\<rparr>)"

definition client_begin :: "store \<Rightarrow> (js_exn + unit) \<times> store" where
  "client_begin s =
     (case send BEGIN s of
        (Some m, s') \<Rightarrow> (Inl (Exn ''error'' m), s')
      | (None, s') \<Rightarrow> (Inr (), s'\<lparr>txn := Some (committed s')\<rparr>))"

definition client_query :: "(database \<Rightarrow> 'r \<times> database) \<Rightarrow> store \<Rightarrow> (js_exn + 'r) \<times> store" where
  \<comment> \<open>a statement on the client: inside its transaction when one is open\<close>
  "client_query q s =
     (case send STATEMENT s of
        (Some m, s') \<Rightarrow> (Inl (Exn ''error'' m), s')
      | (None, s') \<Rightarrow>
          (case txn s' of
             Some w \<Rightarrow> (case q w of (r, d) \<Rightarrow> (Inr r, s'\<lparr>txn := Some d\<rparr>))
           | None \<Rightarrow> (case q (committed s') of (r, d) \<Rightarrow> (Inr r, s'\<lparr>committed := d\<rparr>))))"

definition client_commit :: "store \<Rightarrow> (js_exn + unit) \<times> store" where
  "client_commit s =
     (case send COMMIT s of
        (Some m, s') \<Rightarrow> (Inl (Exn ''error'' m), s')
      | (None, s') \<Rightarrow>
          (case txn s' of
             Some w \<Rightarrow> (Inr (), s'\<lparr>committed := w, txn := None\<rparr>)
           | None \<Rightarrow> (Inr (), s')))"

definition client_rollback :: "store \<Rightarrow> (js_exn + unit) \<times> store" where
  "client_rollback s =
     (case send ROLLBACK s of
        (Some m, s') \<Rightarrow> (Inl (Exn ''error'' m), s')
      | (None, s') \<Rightarrow> (Inr (), s'\<lparr>txn := None\<rparr>))"

subsection \<open>The statements\<close>

definition select_user_by_session :: "string \<Rightarrow> database \<Rightarrow> user_account list \<times> database" where
  \<comment> \<open>\<open>SELECT ua.* FROM user_session s JOIN user_account ua ON ua.user_id = s.user_id
      WHERE s.session_id = $1 LIMIT 1\<close>\<close>
  "select_user_by_session sid d =
     (take 1 (concat (map (\<lambda>s. filter (\<lambda>ua. user_id ua = session_user_id s) (user_accounts d))
                          (filter (\<lambda>s. session_id s = sid) (user_sessions d)))), d)"

definition password_matches :: "env \<Rightarrow> string \<Rightarrow> user_account \<Rightarrow> bool" where
  \<comment> \<open>\<open>password_hash = crypt($2, password_hash)\<close>; never true of a \<open>NULL\<close> hash\<close>
  "password_matches e pw a =
     (case password_hash a of None \<Rightarrow> False | Some h \<Rightarrow> h = crypt e pw h)"

definition select_credentials :: "env \<Rightarrow> string \<Rightarrow> string \<Rightarrow> database \<Rightarrow> user_account list \<times> database" where
  \<comment> \<open>\<open>SELECT ... FROM user_account WHERE username = $1
      AND password_hash = crypt($2, password_hash) LIMIT 1\<close>\<close>
  "select_credentials e u pw d =
     (take 1 (filter (\<lambda>a. username a = u \<and> password_matches e pw a) (user_accounts d)), d)"

definition update_login :: "int \<Rightarrow> database \<Rightarrow> unit \<times> database" where
  \<comment> \<open>\<open>UPDATE user_account SET status = CASE WHEN status = 'pending' THEN 'active'
      ELSE status END, last_login_at = NOW() WHERE user_id = $1\<close>\<close>
  "update_login uid d =
     ((), d\<lparr>user_accounts :=
        map (\<lambda>a. if user_id a = uid
                  then a\<lparr>status := (if status a = Some ''pending'' then Some ''active'' else status a),
                         last_login_at := Some (clock d)\<rparr>
                  else a)
            (user_accounts d)\<rparr>)"

definition insert_session :: "string \<Rightarrow> int \<Rightarrow> database \<Rightarrow> unit \<times> database" where
  \<comment> \<open>\<open>INSERT INTO user_session (session_id, user_id) VALUES ($1, $2)\<close>\<close>
  "insert_session sid uid d =
     ((), d\<lparr>user_sessions := user_sessions d @
              [\<lparr>session_id = sid, session_user_id = uid, last_seen_at = None\<rparr>]\<rparr>)"

definition delete_session :: "string \<Rightarrow> database \<Rightarrow> unit \<times> database" where
  \<comment> \<open>\<open>DELETE FROM user_session WHERE session_id = $1\<close>\<close>
  "delete_session sid d =
     ((), d\<lparr>user_sessions := filter (\<lambda>s. session_id s \<noteq> sid) (user_sessions d)\<rparr>)"

definition touch_session :: "string \<Rightarrow> database \<Rightarrow> unit \<times> database" where
  \<comment> \<open>\<open>UPDATE user_session SET last_seen_at = NOW() WHERE session_id = $1\<close>\<close>
  "touch_session sid d =
     ((), d\<lparr>user_sessions :=
        map (\<lambda>s. if session_id s = sid then s\<lparr>last_seen_at := Some (clock d)\<rparr> else s)
            (user_sessions d)\<rparr>)"

definition select_id_by_name :: "env \<Rightarrow> string \<Rightarrow> (int \<times> string) list \<Rightarrow> int list" where
  \<comment> \<open>\<open>SELECT id FROM table WHERE lower(name) = lower($1) LIMIT 1\<close>\<close>
  "select_id_by_name e n rows =
     take 1 (map fst (filter (\<lambda>r. sql_lower e (snd r) = sql_lower e n) rows))"

section \<open>Requests and responses\<close>

record request =
  req_method :: string
  path :: string
  origin :: "string option"
  cookie_header :: "string option"
  x_session_id :: "string option"
  authorization :: "string option"

record user =
  \<comment> \<open>the account as \<open>normalizeUserRow\<close> returns it\<close>
  u_user_id :: int
  u_username :: string
  u_name :: "string option"
  u_status :: "string option"
  u_last_login_at :: "nat option"
  u_created_at :: nat
  u_password_must_change :: bool

datatype cookie_op = CookieUntouched | SetCookie string string | ClearCookie string

datatype body =
    NoBody
  | ErrorBody string
  | HealthBody
  | UserBody user
  | LoginBody string user

record response =
  code :: nat
  body :: body
  cookie :: cookie_op

definition json_error :: "nat \<Rightarrow> string \<Rightarrow> response" where
  \<comment> \<open>\<open>res.status(c).json({ error: msg })\<close>\<close>
  "json_error c msg = \<lparr>code = c, body = ErrorBody msg, cookie = CookieUntouched\<rparr>"

definition err_text :: "js_exn \<Rightarrow> string" where
  \<comment> \<open>\<open>err?.message || err\<close>, as a string\<close>
  "err_text x = (if exn_message x = [] then exn_name x else exn_message x)"

definition internal_error :: "js_exn \<Rightarrow> response" where
  "internal_error x = json_error 500 (''Internal server error, '' @ err_text x)"

section \<open>Sessions: \<open>routes/auth.js\<close>\<close>

definition setSessionCookie :: "env \<Rightarrow> string \<Rightarrow> response \<Rightarrow> response" where
  "setSessionCookie e sid res = res\<lparr>cookie := SetCookie (SESSION_COOKIE_NAME e) sid\<rparr>"

definition clearSessionCookie :: "env \<Rightarrow> response \<Rightarrow> response" where
  "clearSessionCookie e res = res\<lparr>cookie := ClearCookie (SESSION_COOKIE_NAME e)\<rparr>"

fun find_session_cookie :: "string \<Rightarrow> string list \<Rightarrow> string option" where
  \<comment> \<open>the loop over \<open>cookieHeader.split(';')\<close>: the text after the first \<open>=\<close> of the first
      cookie whose key is the session cookie's name\<close>
  "find_session_cookie nm [] = None"
| "find_session_cookie nm (c # cs) =
     (case split CHR ''='' (trim c) of
        [] \<Rightarrow> find_session_cookie nm cs
      | key # rest \<Rightarrow>
          if key = nm then Some (join ''='' rest) else find_session_cookie nm cs)"

definition session_cookie :: "env \<Rightarrow> request \<Rightarrow> string option" where
  "session_cookie e req =
     (case cookie_header req of
        None \<Rightarrow> None
      | Some h \<Rightarrow>
          if h = [] then None
          else find_session_cookie (SESSION_COOKIE_NAME e) (split CHR '';'' h))"

definition bearer_token :: "request \<Rightarrow> string option" where
  \<comment> \<open>\<open>Authorization: Bearer <id>\<close>\<close>
  "bearer_token req =
     (case authorization req of
        None \<Rightarrow> None
      | Some auth \<Rightarrow>
          if startsWith (toLowerCase auth) ''bearer ''
          then (let token = trim (drop 7 auth) in if token \<noteq> [] then Some token else None)
          else None)"

definition header_token :: "request \<Rightarrow> string option" where
  \<comment> \<open>the \<open>X-Session-Id\<close> fallback\<close>
  "header_token req =
     (case x_session_id req of
        None \<Rightarrow> None
      | Some headerToken \<Rightarrow>
          if length (trim headerToken) > 0 then Some (trim headerToken) else None)"

definition extractSessionId :: "env \<Rightarrow> request \<Rightarrow> js_exn + string option" where
  \<comment> \<open>\<open>Inl\<close>: \<open>decodeURIComponent\<close> threw; \<open>Inr None\<close>: the function returned \<open>null\<close>\<close>
  "extractSessionId e req =
     (case session_cookie e req of
        Some raw \<Rightarrow>
          (case decodeURIComponent e raw of Inl x \<Rightarrow> Inl x | Inr v \<Rightarrow> Inr (Some v))
      | None \<Rightarrow>
          (case header_token req of
             Some t \<Rightarrow> Inr (Some t)
           | None \<Rightarrow> Inr (bearer_token req)))"

definition normalizeUserRow :: "user_account \<Rightarrow> user" where
  "normalizeUserRow row =
     \<lparr>u_user_id = user_id row, u_username = username row, u_name = name row,
      u_status = status row, u_last_login_at = last_login_at row,
      u_created_at = created_at row,
      u_password_must_change = (password_must_change row = Some True)\<rparr>"

definition fetchUserBySession :: "string \<Rightarrow> store \<Rightarrow> (js_exn + user option) \<times> store" where
  "fetchUserBySession sid s =
     (case pool_query (select_user_by_session sid) s of
        (Inl x, s1) \<Rightarrow> (Inl x, s1)
      | (Inr rows, s1) \<Rightarrow>
          (Inr (case rows of [] \<Rightarrow> None | row # _ \<Rightarrow> Some (normalizeUserRow row)), s1))"

subsection \<open>Login\<close>

record login_body =
  body_username :: "string option"
  body_password :: "string option"

definition USER_STATUSES :: "string list" where
  "USER_STATUSES = [''pending'', ''active'', ''inactive'']"

definition normalizedStatus :: "user_account \<Rightarrow> string" where
  \<comment> \<open>\<open>String(user.status ?? '').trim().toLowerCase()\<close>\<close>
  "normalizedStatus a = toLowerCase (trim (case status a of None \<Rightarrow> [] | Some t \<Rightarrow> t))"

text \<open>
  The \<open>try\<close> block of the login handler, in three stages. Each returns what the block
  does (\<open>Inl\<close>: it throws; \<open>Inr\<close>: it returns this response), whether the variable
  \<open>client\<close> still holds the client when the block is left, and the store. \<open>uuid\<close> is the
  value of \<open>randomUUID()\<close>.
\<close>

definition login_commit :: "env \<Rightarrow> string \<Rightarrow> user_account \<Rightarrow> store \<Rightarrow> (js_exn + response) \<times> bool \<times> store" where
  "login_commit e uuid a s =
     (case client_query (update_login (user_id a)) s of
        (Inl x, s1) \<Rightarrow> (Inl x, True, s1)
      | (Inr _, s1) \<Rightarrow>
          (case client_query (insert_session uuid (user_id a)) s1 of
             (Inl x, s2) \<Rightarrow> (Inl x, True, s2)
           | (Inr _, s2) \<Rightarrow>
               (case client_commit s2 of
                  (Inl x, s3) \<Rightarrow> (Inl x, True, s3)
                | (Inr _, s3) \<Rightarrow>
                    (Inr (setSessionCookie e uuid
                           \<lparr>code = 200, body = LoginBody uuid (normalizeUserRow a),
                            cookie = CookieUntouched\<rparr>),
                     False, client_release s3))))"

definition login_reject :: "response \<Rightarrow> store \<Rightarrow> (js_exn + response) \<times> bool \<times> store" where
  \<comment> \<open>\<open>await client.query('ROLLBACK'); return res.status(...).json(...)\<close>\<close>
  "login_reject r s =
     (case client_rollback s of
        (Inl x, s1) \<Rightarrow> (Inl x, True, s1)
      | (Inr _, s1) \<Rightarrow> (Inr r, True, s1))"

definition login_verify :: "env \<Rightarrow> string \<Rightarrow> string \<Rightarrow> string \<Rightarrow> store \<Rightarrow> (js_exn + response) \<times> bool \<times> store" where
  "login_verify e uuid u pw s =
     (case client_query (select_credentials e (toLowerCase (trim u)) pw) s of
        (Inl x, s1) \<Rightarrow> (Inl x, True, s1)
      | (Inr rows, s1) \<Rightarrow>
          (case rows of
             [] \<Rightarrow> login_reject (json_error 401 ''Invalid username or password'') s1
           | a # _ \<Rightarrow>
               if normalizedStatus a \<notin> set USER_STATUSES \<or> normalizedStatus a = ''inactive''
               then login_reject
                      (json_error 403
                         (if normalizedStatus a = ''inactive'' then ''User account is inactive''
                          else ''User status does not permit login''))
                      s1
               else login_commit e uuid a s1))"

definition login_try :: "env \<Rightarrow> string \<Rightarrow> login_body \<Rightarrow> store \<Rightarrow> (js_exn + response) \<times> bool \<times> store" where
  "login_try e uuid b s =
     (case (body_username b, body_password b) of
        (Some u, Some pw) \<Rightarrow>
          if u = [] \<or> pw = []
          then (Inr (json_error 400 ''username and password are required''), False, s)
          else
            (case pool_connect s of
               (Inl x, s1) \<Rightarrow> (Inl x, False, s1)
             | (Inr _, s1) \<Rightarrow>
                 (case client_begin s1 of
                    (Inl x, s2) \<Rightarrow> (Inl x, True, s2)
                  | (Inr _, s2) \<Rightarrow> login_verify e uuid u pw s2))
      | _ \<Rightarrow> (Inr (json_error 400 ''username and password are required''), False, s))"

definition login :: "env \<Rightarrow> string \<Rightarrow> login_body \<Rightarrow> store \<Rightarrow> response \<times> store" where
  \<comment> \<open>\<open>router.post('/login')\<close>: the \<open>try\<close> block, then \<open>catch\<close> (roll back, whatever that
      gives, and release) or \<open>finally\<close> (release a client still held)\<close>
  "login e uuid b s =
     (case login_try e uuid b s of
        (Inr r, client, s1) \<Rightarrow> (r, if client then client_release s1 else s1)
      | (Inl x, client, s1) \<Rightarrow>
          (internal_error x,
           if client then client_release (snd (client_rollback s1)) else s1))"

subsection \<open>Logout\<close>

definition logout :: "env \<Rightarrow> request \<Rightarrow> store \<Rightarrow> response \<times> store" where
  \<comment> \<open>\<open>router.post('/logout')\<close>\<close>
  "logout e req s =
     (case extractSessionId e req of
        Inl x \<Rightarrow> (internal_error x, s)
      | Inr sessionId \<Rightarrow>
          (case (case sessionId of
                   None \<Rightarrow> (Inr (), s)
                 | Some sid \<Rightarrow> if sid = [] then (Inr (), s) else pool_query (delete_session sid) s) of
             (Inl x, s1) \<Rightarrow> (internal_error x, s1)
           | (Inr _, s1) \<Rightarrow>
               (clearSessionCookie e \<lparr>code = 204, body = NoBody, cookie = CookieUntouched\<rparr>, s1)))"

section \<open>The server: CORS, the authorization gate, the routes\<close>

definition AUTH_EXEMPT_PATHS :: "string list" where
  "AUTH_EXEMPT_PATHS = [''/auth/login'', ''/auth/logout'']"

definition isAuthExemptPath :: "string \<Rightarrow> bool" where
  "isAuthExemptPath pathname =
     (if pathname = [] then False
      else
        (let normalized = (if length pathname > 1 then strip_trailing_slashes pathname else pathname)
         in normalized \<in> set AUTH_EXEMPT_PATHS \<or>
            (\<exists>exempt \<in> set AUTH_EXEMPT_PATHS.
               length normalized > length exempt \<and>
               endsWith normalized exempt \<and>
               normalized ! (length normalized - length exempt - 1) = CHR ''/'')))"

definition cors :: "request \<Rightarrow> response option" where
  \<comment> \<open>the CORS middleware: \<open>Some\<close> when it answers itself (\<open>res.sendStatus(204)\<close>), \<open>None\<close>
      when it calls \<open>next()\<close>; the headers it sets play no part in the control flow and
      are left out\<close>
  "cors req =
     (if req_method req = ''OPTIONS''
      then Some \<lparr>code = 204, body = NoBody, cookie = CookieUntouched\<rparr>
      else None)"

definition updateSessionActivity :: "string \<Rightarrow> store \<Rightarrow> store" where
  \<comment> \<open>not awaited; a failure is logged and dropped\<close>
  "updateSessionActivity sid s = snd (pool_query (touch_session sid) s)"

definition allowedWhenMustChange :: "string list" where
  "allowedWhenMustChange = [''/auth/change-password'', ''/auth/logout'', ''/auth/me'', ''/health'']"

datatype gate_result =
    Next "(string \<times> user) option"
  | Respond response

definition not_authenticated :: "env \<Rightarrow> response" where
  \<comment> \<open>\<open>clearSessionCookie(res); return res.status(401).json({ error: 'Not authenticated' })\<close>\<close>
  "not_authenticated e = clearSessionCookie e (json_error 401 ''Not authenticated'')"

definition auth_gate :: "env \<Rightarrow> request \<Rightarrow> store \<Rightarrow> gate_result \<times> store" where
  \<comment> \<open>the global gate; \<open>Next ctx\<close> is \<open>next()\<close>, with the \<open>req.sessionId\<close> and \<open>req.user\<close> it
      has attached, if any\<close>
  "auth_gate e req s =
     (if req_method req = ''OPTIONS'' \<or> isAuthExemptPath (path req) then (Next None, s)
      else
        (case extractSessionId e req of
           Inl x \<Rightarrow> (Respond (internal_error x), s)
         | Inr None \<Rightarrow> (Respond (not_authenticated e), s)
         | Inr (Some sessionId) \<Rightarrow>
             if sessionId = [] then (Respond (not_authenticated e), s)
             else
               (case fetchUserBySession sessionId s of
                  (Inl x, s1) \<Rightarrow> (Respond (internal_error x), s1)
                | (Inr None, s1) \<Rightarrow> (Respond (not_authenticated e), s1)
                | (Inr (Some usr), s1) \<Rightarrow>
                    (let s2 = updateSessionActivity sessionId s1
                     in if u_password_must_change usr \<and> path req \<notin> set allowedWhenMustChange
                        then (Respond (json_error 403 ''Password change required''), s2)
                        else (Next (Some (sessionId, usr)), s2)))))"

type_synonym handler = "request \<Rightarrow> (string \<times> user) option \<Rightarrow> store \<Rightarrow> response \<times> store"

definition health :: handler where
  \<comment> \<open>\<open>app.get('/health', (_, res) => res.json({ ok: true }))\<close>\<close>
  "health req ctx s = (\<lparr>code = 200, body = HealthBody, cookie = CookieUntouched\<rparr>, s)"

definition app :: "env \<Rightarrow> handler \<Rightarrow> request \<Rightarrow> store \<Rightarrow> response \<times> store" where
  \<comment> \<open>the middleware chain in front of the route \<open>h\<close> that matches the request\<close>
  "app e h req s =
     (case cors req of
        Some r \<Rightarrow> (r, s)
      | None \<Rightarrow>
          (case auth_gate e req s of
             (Respond r, s1) \<Rightarrow> (r, s1)
           | (Next ctx, s1) \<Rightarrow> h req ctx s1))"

section \<open>Contracts: \<open>routes/contracts.js\<close>\<close>

definition FIELDS :: "string list" where
  "FIELDS =
     [''title'', ''counterparty_name'', ''counterparty_contact'', ''counterparty_email'',
      ''internal_owner'', ''department'', ''department_id'', ''contract_type'', ''status'',
      ''status_id'', ''signed_date'', ''effective_date'', ''start_date'', ''end_date'',
      ''auto_renew'', ''renewal_term_months'', ''termination_notice_days'',
      ''termination_notice_deadline'', ''notes'', ''file_name'']"

definition coerceBoolean :: "env \<Rightarrow> jsval \<Rightarrow> jsval" where
  "coerceBoolean e v =
     (if v = JNull \<or> v = JUndefined \<or> v = JStr [] then JNull
      else
        (case v of
           JBool b \<Rightarrow> v
         | _ \<Rightarrow>
             (let s = toLowerCase (trim (ToString e v))
              in if s \<in> set [''true'', ''1'', ''yes'', ''y'', ''on''] then JBool True
                 else if s \<in> set [''false'', ''0'', ''no'', ''n'', ''off''] then JBool False
                 else JNull)))"

definition coerceInteger :: "env \<Rightarrow> jsval \<Rightarrow> jsval" where
  "coerceInteger e v =
     (if v = JNull \<or> v = JUndefined \<or> v = JStr [] then JNull
      else
        (let n = ToNumber e v
         in if \<not> isFinite n then JNull else JNum (trunc n)))"

definition INTEGER_FIELDS :: "string list" where
  "INTEGER_FIELDS =
     [''renewal_term_months'', ''termination_notice_days'', ''department_id'', ''status_id'']"

definition sanitize_value :: "env \<Rightarrow> string \<Rightarrow> jsval \<Rightarrow> jsval" where
  \<comment> \<open>the body of both sanitizing loops: what is stored under key \<open>k\<close> for the value \<open>v\<close>\<close>
  "sanitize_value e k v =
     (let v1 = (if k = ''auto_renew'' then coerceBoolean e v else v);
          v2 = (if k \<in> set INTEGER_FIELDS then coerceInteger e v1 else v1);
          v3 = (case v2 of JStr s \<Rightarrow> JStr (trim s) | _ \<Rightarrow> v2)
      in if v3 = JStr [] then JNull else v3)"

fun create_loop :: "env \<Rightarrow> jsobject \<Rightarrow> string list \<Rightarrow> jsobject \<Rightarrow> jsobject" where
  \<comment> \<open>\<open>for (const k of FIELDS) { if (payload[k] === undefined) continue; ... }\<close>\<close>
  "create_loop e payload [] data = data"
| "create_loop e payload (k # ks) data =
     (case obj_get payload k of
        None \<Rightarrow> create_loop e payload ks data
      | Some JUndefined \<Rightarrow> create_loop e payload ks data
      | Some v \<Rightarrow> create_loop e payload ks (obj_set k (sanitize_value e k v) data))"

definition sanitizeCreatePayload :: "env \<Rightarrow> jsobject \<Rightarrow> jsobject" where
  "sanitizeCreatePayload e payload = create_loop e payload FIELDS []"

fun patch_loop :: "env \<Rightarrow> jsobject \<Rightarrow> string list \<Rightarrow> jsobject \<Rightarrow> jsobject" where
  \<comment> \<open>\<open>for (const k of FIELDS) { if (!(k in payload)) continue; ... }\<close>\<close>
  "patch_loop e payload [] data = data"
| "patch_loop e payload (k # ks) data =
     (case obj_get payload k of
        None \<Rightarrow> patch_loop e payload ks data
      | Some v \<Rightarrow> patch_loop e payload ks (obj_set k (sanitize_value e k v) data))"

definition sanitizePatchPayload :: "env \<Rightarrow> jsobject \<Rightarrow> jsobject" where
  "sanitizePatchPayload e payload = patch_loop e payload FIELDS []"

subsection \<open>Listing\<close>

definition list_limit :: "env \<Rightarrow> jsval \<Rightarrow> jsnum" where
  \<comment> \<open>\<open>Math.min(Math.max(Number(req.query.limit) || 200, 1), 1000)\<close>\<close>
  "list_limit e q =
     Math_min (Math_max (let n = ToNumber e q in if num_truthy n then n else Fin 200) (Fin 1))
              (Fin 1000)"

definition list_offset :: "env \<Rightarrow> jsval \<Rightarrow> jsnum" where
  \<comment> \<open>\<open>Math.max(Number(req.query.offset) || 0, 0)\<close>\<close>
  "list_offset e q =
     Math_max (let n = ToNumber e q in if num_truthy n then n else Fin 0) (Fin 0)"

subsection \<open>Names to ids\<close>

definition nullish :: "jsval option \<Rightarrow> bool" where
  \<comment> \<open>\<open>x == null\<close> of a property: absent, \<open>undefined\<close> or \<open>null\<close>\<close>
  "nullish x = (x = None \<or> x = Some JUndefined \<or> x = Some JNull)"

definition nonblank_string :: "jsval option \<Rightarrow> string option" where
  \<comment> \<open>\<open>typeof x === 'string' && x.trim()\<close>: the trimmed string when that holds\<close>
  "nonblank_string x =
     (case x of Some (JStr s) \<Rightarrow> if trim s \<noteq> [] then Some (trim s) else None | _ \<Rightarrow> None)"

definition resolveIdsFromNames :: "env \<Rightarrow> jsobject \<Rightarrow> store \<Rightarrow> (js_exn + jsobject) \<times> store" where
  "resolveIdsFromNames e data s =
     (case
        (if nullish (obj_get data ''department_id'') then
           (case nonblank_string (obj_get data ''department'') of
              Some nm \<Rightarrow>
                (case pool_query (\<lambda>d. (select_id_by_name e nm (departments d), d)) s of
                   (Inl x, s1) \<Rightarrow> (Inl x, s1)
                 | (Inr rows, s1) \<Rightarrow>
                     (Inr (case rows of
                             [] \<Rightarrow> data
                           | i # _ \<Rightarrow> obj_set ''department_id'' (JNum (Fin (of_int i))) data), s1))
            | None \<Rightarrow> (Inr data, s))
         else (Inr data, s)) of
        (Inl x, s1) \<Rightarrow> (Inl x, s1)
      | (Inr resolved, s1) \<Rightarrow>
          (if nullish (obj_get resolved ''status_id'') then
             (case nonblank_string (obj_get resolved ''status'') of
                Some nm \<Rightarrow>
                  (case pool_query (\<lambda>d. (select_id_by_name e nm (statuses d), d)) s1 of
                     (Inl x, s2) \<Rightarrow> (Inl x, s2)
                   | (Inr rows, s2) \<Rightarrow>
                       (Inr (case rows of
                               [] \<Rightarrow> resolved
                             | i # _ \<Rightarrow> obj_set ''status_id'' (JNum (Fin (of_int i))) resolved), s2))
              | None \<Rightarrow> (Inr resolved, s1))
           else (Inr resolved, s1)))"

section \<open>A concrete environment and store\<close>

text \<open>
  Every theorem below holds for all environments. To evaluate the model at concrete
  inputs, \<open>env0\<close> supplies stand-ins that agree with the platform where they are used:
  numbers written as decimal digits, percent escapes of ASCII characters (any other
  escape, and a percent sign that starts none, is answered \<open>URIError\<close>), and a \<open>crypt\<close>
  whose result depends on the password alone.
\<close>

definition hex_digit :: "char \<Rightarrow> nat option" where
  "hex_digit c =
     (let n = of_char c :: nat
      in if 48 \<le> n \<and> n \<le> 57 then Some (n - 48)
         else if 65 \<le> n \<and> n \<le> 70 then Some (n - 55)
         else if 97 \<le> n \<and> n \<le> 102 then Some (n - 87)
         else None)"

fun percent_decode :: "string \<Rightarrow> js_exn + string" where
  "percent_decode [] = Inr []"
| "percent_decode [c] = (if c = CHR ''%'' then Inl (Exn ''URIError'' ''URI malformed'') else Inr [c])"
| "percent_decode [c, d] =
     (if c = CHR ''%'' then Inl (Exn ''URIError'' ''URI malformed'')
      else (case percent_decode [d] of Inl x \<Rightarrow> Inl x | Inr r \<Rightarrow> Inr (c # r)))"
| "percent_decode (c # h # l # rest) =
     (if c = CHR ''%'' then
        (case (hex_digit h, hex_digit l) of
           (Some a, Some b) \<Rightarrow>
             if 16 * a + b < 128
             then (case percent_decode rest of Inl x \<Rightarrow> Inl x | Inr r \<Rightarrow> Inr (char_of (16 * a + b) # r))
             else Inl (Exn ''URIError'' ''URI malformed'')
         | _ \<Rightarrow> Inl (Exn ''URIError'' ''URI malformed''))
      else (case percent_decode (h # l # rest) of Inl x \<Rightarrow> Inl x | Inr r \<Rightarrow> Inr (c # r)))"

definition env0 :: env where
  "env0 =
     \<lparr>NumberToString = (\<lambda>n. if n = Fin 1 then ''1'' else if n = Fin 0 then ''0'' else ''NaN''),
      StringToNumber =
        (\<lambda>s. if s \<noteq> [] \<and> list_all (\<lambda>c. 48 \<le> (of_char c :: nat) \<and> (of_char c :: nat) \<le> 57) s
              then Fin (of_nat (foldl (\<lambda>a c. 10 * a + (of_char c - 48)) 0 s)) else NaN),
      decodeURIComponent = percent_decode,
      crypt = (\<lambda>pw h. ''$'' @ pw),
      sql_lower = toLowerCase,
      SESSION_COOKIE_NAME = ''cm_session''\<rparr>"

definition alice :: user_account where
  "alice =
     \<lparr>user_id = 101, username = ''user@example.com'', name = Some ''Example User'',
      status = Some ''pending'', password_hash = Some ''$secret'',
      password_must_change = Some True, created_at = 1, last_login_at = None\<rparr>"

definition db0 :: database where
  "db0 =
     \<lparr>user_accounts = [alice],
      user_sessions = [\<lparr>session_id = ''s1'', session_user_id = 101, last_seen_at = None\<rparr>],
      departments = [(1, ''operations''), (2, ''shelters'')],
      statuses = [(1, ''pending''), (2, ''active'')],
      clock = 7\<rparr>"

definition store0 :: store where
  "store0 = \<lparr>committed = db0, txn = None, checked_out = 0, client_log = [], faults = []\<rparr>"

definition get_request :: "string \<Rightarrow> request" where
  \<comment> \<open>a \<open>GET\<close> of the given path that carries no session\<close>
  "get_request p =
     \<lparr>req_method = ''GET'', path = p, origin = None, cookie_header = None,
      x_session_id = None, authorization = None\<rparr>"

definition alice_login :: "string \<Rightarrow> login_body" where
  \<comment> \<open>a login body for the seeded account with the given password\<close>
  "alice_login pw = \<lparr>body_username = Some ''user@example.com'', body_password = Some pw\<rparr>"

definition malformed_logout :: request where
  \<comment> \<open>\<open>POST /auth/logout\<close> with the header \<open>Cookie: cm_session=%\<close>\<close>
  "malformed_logout =
     \<lparr>req_method = ''POST'', path = ''/auth/logout'', origin = None,
      cookie_header = Some ''cm_session=%'', x_session_id = None, authorization = None\<rparr>"

definition payload0 :: jsobject where
  "payload0 =
     [(''title'', JStr ''  Lease ''), (''auto_renew'', JStr ''yes''), (''status_id'', JStr ''12''),
      (''notes'', JNull), (''owner_secret'', JStr ''x'')]"

definition data0 :: jsobject where
  "data0 =
     [(''title'', JStr ''Lease''), (''department'', JStr ''Operations''),
      (''status'', JStr ''archived'')]"

section \<open>The vocabulary of the properties\<close>

text \<open>
  The notions in which the properties below are stated, each defined on the data alone.
\<close>

definition session_accounts :: "database \<Rightarrow> string \<Rightarrow> user_account list" where
  \<comment> \<open>the account rows a session identifier resolves to\<close>
  "session_accounts d sid =
     concat (map (\<lambda>s. filter (\<lambda>ua. user_id ua = session_user_id s) (user_accounts d))
                 (filter (\<lambda>s. session_id s = sid) (user_sessions d)))"

definition credential_match :: "env \<Rightarrow> database \<Rightarrow> string \<Rightarrow> string \<Rightarrow> user_account option" where
  \<comment> \<open>the stored account with this username whose hash the password matches\<close>
  "credential_match e d u pw =
     find (\<lambda>a. username a = u \<and> password_matches e pw a) (user_accounts d)"

definition supplied :: "login_body \<Rightarrow> (string \<times> string) option" where
  \<comment> \<open>the username and the password of a body that carries both, neither empty\<close>
  "supplied b =
     (case (body_username b, body_password b) of
        (Some u, Some pw) \<Rightarrow> if u = [] \<or> pw = [] then None else Some (u, pw)
      | _ \<Rightarrow> None)"

definition logged_in :: "user_account \<Rightarrow> string \<Rightarrow> database \<Rightarrow> database" where
  \<comment> \<open>the database after a login of account \<open>a\<close>: status promoted, last login refreshed,
      and the session row inserted\<close>
  "logged_in a uuid d = snd (insert_session uuid (user_id a) (snd (update_login (user_id a) d)))"

definition exempt_as_specified :: "string \<Rightarrow> bool" where
  \<comment> \<open>the allow-list in the specification's words: an exempt path exactly, once trailing
      slashes are stripped, or a path that ends with an exempt path\<close>
  "exempt_as_specified p =
     (let n = (if length p > 1 then strip_trailing_slashes p else p)
      in \<exists>x \<in> set AUTH_EXEMPT_PATHS. n = x \<or> (length x < length n \<and> endsWith n x))"

definition cookie_pairs :: "string \<Rightarrow> (string \<times> string) list" where
  \<comment> \<open>the cookies of a \<open>Cookie\<close> header: its items between semicolons, trimmed, each cut at
      its first equals sign into a name and a value\<close>
  "cookie_pairs h =
     (if h = [] then []
      else map (\<lambda>c. (takeWhile (\<lambda>x. x \<noteq> CHR ''='') (trim c),
                      drop (Suc (length (takeWhile (\<lambda>x. x \<noteq> CHR ''='') (trim c)))) (trim c)))
               (split CHR '';'' h))"

definition named_cookie :: "env \<Rightarrow> request \<Rightarrow> string option" where
  \<comment> \<open>the text of the first cookie that bears the session cookie's name\<close>
  "named_cookie e req =
     (case cookie_header req of
        None \<Rightarrow> None
      | Some h \<Rightarrow> map_of (cookie_pairs h) (SESSION_COOKIE_NAME e))"

definition included_on_create :: "jsval option \<Rightarrow> jsval option" where
  \<comment> \<open>a property counts on create unless it is absent or \<open>undefined\<close>\<close>
  "included_on_create x = (case x of Some JUndefined \<Rightarrow> None | _ \<Rightarrow> x)"

definition boolean_word :: "string \<Rightarrow> bool option" where
  \<comment> \<open>the fixed vocabulary of the boolean field\<close>
  "boolean_word s =
     (if s \<in> set [''true'', ''1'', ''yes'', ''y'', ''on''] then Some True
      else if s \<in> set [''false'', ''0'', ''no'', ''n'', ''off''] then Some False
      else None)"

definition boolean_of :: "env \<Rightarrow> jsval \<Rightarrow> bool option" where
  \<comment> \<open>a boolean as it is, anything else by its trimmed, lowercased text\<close>
  "boolean_of e v =
     (case v of JBool b \<Rightarrow> Some b | _ \<Rightarrow> boolean_word (toLowerCase (trim (ToString e v))))"

definition name_lookup :: "env \<Rightarrow> (int \<times> string) list \<Rightarrow> string \<Rightarrow> int option" where
  \<comment> \<open>the id of the first row whose name is the given one up to case\<close>
  "name_lookup e rows nm =
     map_option fst (find (\<lambda>r. sql_lower e (snd r) = sql_lower e nm) rows)"

definition resolved_id :: "env \<Rightarrow> (int \<times> string) list \<Rightarrow> jsval option \<Rightarrow> jsval option \<Rightarrow> jsval option" where
  \<comment> \<open>the id field after resolution, from the id field and the name field before it\<close>
  "resolved_id e rows idv namev =
     (if nullish idv then
        (case nonblank_string namev of
           Some nm \<Rightarrow>
             (case name_lookup e rows nm of
                Some i \<Rightarrow> Some (JNum (Fin (of_int i)))
              | None \<Rightarrow> idv)
         | None \<Rightarrow> idv)
      else idv)"

section \<open>The store's operations\<close>

lemma split_not_Nil: "split sep s \<noteq> []"
  by (induction s) (auto split: list.splits)


lemma next_fault_none: "faults s = [] \<Longrightarrow> next_fault s = (None, s)"
  by (simp add: next_fault_def)

lemma pool_query_ok:
  "faults s = [] \<Longrightarrow>
   pool_query q s = (Inr (fst (q (committed s))), s\<lparr>committed := snd (q (committed s))\<rparr>)"
  by (simp add: pool_query_def next_fault_none split: prod.splits)

lemma case_take1:
  "(case take (Suc 0) xs of [] \<Rightarrow> a | r # _ \<Rightarrow> f r) = (case xs of [] \<Rightarrow> a | r # _ \<Rightarrow> f r)"
  by (cases xs) auto

lemma take1_filter_find:
  "take (Suc 0) (filter P xs) = (case find P xs of None \<Rightarrow> [] | Some a \<Rightarrow> [a])"
  by (induction xs) auto

lemma fetchUserBySession_ok:
  "faults s = [] \<Longrightarrow>
   fetchUserBySession sid s =
     (Inr (case session_accounts (committed s) sid of [] \<Rightarrow> None
           | row # _ \<Rightarrow> Some (normalizeUserRow row)), s)"
  by (simp add: fetchUserBySession_def pool_query_ok select_user_by_session_def
      session_accounts_def case_take1)

lemma touched_rows:
  "concat (map (\<lambda>s. filter (\<lambda>ua. user_id ua = session_user_id s) accts)
               (filter (\<lambda>s. session_id s = sid)
                  (map (\<lambda>s. if session_id s = sid' then s\<lparr>last_seen_at := t\<rparr> else s) ss)))
   = concat (map (\<lambda>s. filter (\<lambda>ua. user_id ua = session_user_id s) accts)
               (filter (\<lambda>s. session_id s = sid) ss))"
  by (induction ss) auto

lemma session_accounts_touch:
  "session_accounts (snd (touch_session sid' d)) sid = session_accounts d sid"
  by (simp add: session_accounts_def touch_session_def touched_rows)

lemma updateSessionActivity_ok:
  "faults s = [] \<Longrightarrow>
   updateSessionActivity sid s = s\<lparr>committed := snd (touch_session sid (committed s))\<rparr>"
  by (simp add: updateSessionActivity_def pool_query_ok)

section \<open>The authorization gate\<close>

lemma isAuthExemptPath_specified: "isAuthExemptPath p \<Longrightarrow> exempt_as_specified p"
  by (auto simp: isAuthExemptPath_def exempt_as_specified_def Let_def split: if_splits)

text \<open>
  The converse fails. The gate asks for a slash in front of the exempt path, which itself
  begins with one, so a nested mount such as \<open>/api/auth/login\<close> is not exempt, while
  \<open>/api//auth/login\<close> is.
\<close>

lemma nested_mount_not_exempt:
  "exempt_as_specified ''/api/auth/login'' \<and> \<not> isAuthExemptPath ''/api/auth/login'' \<and>
   isAuthExemptPath ''/api//auth/login''"
  by (simp add: isAuthExemptPath_def exempt_as_specified_def AUTH_EXEMPT_PATHS_def
      strip_trailing_slashes_def endsWith_def)

lemma gate_keeps_accounts:
  assumes "faults s = []"
  shows "faults (snd (auth_gate e req s)) = [] \<and>
         session_accounts (committed (snd (auth_gate e req s))) sid =
           session_accounts (committed s) sid"
  using assms
  by (auto simp: auth_gate_def fetchUserBySession_ok updateSessionActivity_ok Let_def
      session_accounts_touch split: sum.splits option.splits list.splits)

lemma gate_must_change:
  assumes "faults s = []"
    and "req_method req \<noteq> ''OPTIONS''" and "\<not> isAuthExemptPath (path req)"
    and "extractSessionId e req = Inr (Some sid)" and "sid \<noteq> []"
    and "session_accounts (committed s) sid = a # rest"
    and "password_must_change a = Some True"
  shows "fst (auth_gate e req s) =
     (if path req \<in> {''/auth/change-password'', ''/auth/logout'', ''/auth/me'', ''/health''}
      then Next (Some (sid, normalizeUserRow a))
      else Respond \<lparr>code = 403, body = ErrorBody ''Password change required'',
                    cookie = CookieUntouched\<rparr>)"
  using assms
  by (auto simp: auth_gate_def fetchUserBySession_ok allowedWhenMustChange_def json_error_def
      Let_def normalizeUserRow_def)

text \<open>
  \<^bold>\<open>C10\<close>. A request whose method is \<open>OPTIONS\<close> is never rejected: the CORS middleware
  answers it 204 before the gate runs, whatever the route, the session and the account;
  and the gate, were it to run, would pass it on without looking at the session.
\<close>

theorem options_never_rejected:
  assumes "req_method req = ''OPTIONS''"
  shows "app e h req s = (\<lparr>code = 204, body = NoBody, cookie = CookieUntouched\<rparr>, s)
       \<and> auth_gate e req s = (Next None, s)"
  using assms by (simp add: app_def cors_def auth_gate_def)

theorem options_never_rejected_witness:
  "app env0 health ((get_request ''/contracts'')\<lparr>req_method := ''OPTIONS''\<rparr>) store0
     = (\<lparr>code = 204, body = NoBody, cookie = CookieUntouched\<rparr>, store0)
   \<and> auth_gate env0 ((get_request ''/contracts'')\<lparr>req_method := ''OPTIONS''\<rparr>) store0
     = (Next None, store0)"
  using options_never_rejected
          [of "(get_request ''/contracts'')\<lparr>req_method := ''OPTIONS''\<rparr>" env0 health store0]
  by (simp add: get_request_def)

text \<open>
  \<^bold>\<open>C1\<close>, as amended. For every request whose method is not \<open>OPTIONS\<close> and whose path is not
  exempt (by the gate's own test, or by the allow-list as the specification words it,
  which contains the gate's): if the extraction of the session identifier yields none, or
  an empty one, or one that the store resolves to no account row, then the gate answers
  401 \<open>Not authenticated\<close> and clears the session cookie, the store is left as it was, and
  the response of the whole chain is that one whatever the matched handler \<open>h\<close> is: the
  handler is never reached. Here the store answers the lookup (\<open>faults s = []\<close>).
\<close>

theorem gate_rejects_unauthenticated:
  assumes "req_method req \<noteq> ''OPTIONS''"
    and "\<not> isAuthExemptPath (path req) \<or> \<not> exempt_as_specified (path req)"
    and "faults s = []"
    and "extractSessionId e req = Inr sid"
    and "case sid of None \<Rightarrow> True | Some i \<Rightarrow> i = [] \<or> session_accounts (committed s) i = []"
  shows "auth_gate e req s =
           (Respond \<lparr>code = 401, body = ErrorBody ''Not authenticated'',
                     cookie = ClearCookie (SESSION_COOKIE_NAME e)\<rparr>, s)
       \<and> app e h req s =
           (\<lparr>code = 401, body = ErrorBody ''Not authenticated'',
             cookie = ClearCookie (SESSION_COOKIE_NAME e)\<rparr>, s)"
proof -
  from assms(2) have "\<not> isAuthExemptPath (path req)"
    using isAuthExemptPath_specified by blast
  with assms(1,3,4,5) show ?thesis
    by (auto simp: auth_gate_def app_def cors_def not_authenticated_def clearSessionCookie_def
        json_error_def fetchUserBySession_ok split: option.splits)
qed

theorem gate_rejects_unauthenticated_witness:
  "auth_gate env0 (get_request ''/contracts'') store0 =
     (Respond \<lparr>code = 401, body = ErrorBody ''Not authenticated'',
               cookie = ClearCookie ''cm_session''\<rparr>, store0)
   \<and> app env0 health (get_request ''/contracts'') store0 =
     (\<lparr>code = 401, body = ErrorBody ''Not authenticated'',
       cookie = ClearCookie ''cm_session''\<rparr>, store0)"
proof -
  have 1: "req_method (get_request ''/contracts'') \<noteq> ''OPTIONS''"
    by (simp add: get_request_def)
  have 2: "\<not> isAuthExemptPath (path (get_request ''/contracts''))
           \<or> \<not> exempt_as_specified (path (get_request ''/contracts''))"
    by (simp add: get_request_def isAuthExemptPath_def AUTH_EXEMPT_PATHS_def
        strip_trailing_slashes_def endsWith_def)
  have 3: "faults store0 = []"
    by (simp add: store0_def)
  have 4: "extractSessionId env0 (get_request ''/contracts'') = Inr None"
    by (simp add: extractSessionId_def session_cookie_def header_token_def bearer_token_def
        get_request_def)
  have 5: "case None :: string option of None \<Rightarrow> True
           | Some i \<Rightarrow> i = [] \<or> session_accounts (committed store0) i = []"
    by simp
  from gate_rejects_unauthenticated [OF 1 2 3 4 5, of health] show ?thesis
    by (simp add: env0_def)
qed

text \<open>
  As the specification states it, for every request, the property fails at an \<open>OPTIONS\<close>
  request: the path \<open>/contracts\<close> is not exempt and the request carries no session, yet
  the gate passes it on and the chain answers 204.
\<close>

theorem gate_options_counterexample:
  "\<not> isAuthExemptPath (path ((get_request ''/contracts'')\<lparr>req_method := ''OPTIONS''\<rparr>))
   \<and> \<not> exempt_as_specified (path ((get_request ''/contracts'')\<lparr>req_method := ''OPTIONS''\<rparr>))
   \<and> extractSessionId env0 ((get_request ''/contracts'')\<lparr>req_method := ''OPTIONS''\<rparr>) = Inr None
   \<and> auth_gate env0 ((get_request ''/contracts'')\<lparr>req_method := ''OPTIONS''\<rparr>) store0
       = (Next None, store0)
   \<and> app env0 health ((get_request ''/contracts'')\<lparr>req_method := ''OPTIONS''\<rparr>) store0
       = (\<lparr>code = 204, body = NoBody, cookie = CookieUntouched\<rparr>, store0)"
  by (simp add: get_request_def isAuthExemptPath_def exempt_as_specified_def
      AUTH_EXEMPT_PATHS_def strip_trailing_slashes_def endsWith_def extractSessionId_def
      session_cookie_def header_token_def bearer_token_def auth_gate_def app_def cors_def)

text \<open>
  \<^bold>\<open>C2\<close>. A request that gets through identity resolution (its method is not \<open>OPTIONS\<close>,
  its path is not exempt, its session identifier resolves to the account \<open>a\<close>) for an
  account whose must-change-password flag is set goes on exactly when its path is one of
  \<open>/auth/change-password\<close>, \<open>/auth/logout\<close>, \<open>/auth/me\<close>, \<open>/health\<close>; on any other path
  the gate answers 403 \<open>Password change required\<close>. The check is made anew on every
  request: the outcome is the same in the store that an earlier run of the gate, on any
  request \<open>req0\<close>, has left behind.
\<close>

theorem must_change_password_gate:
  assumes "faults s = []"
    and "req_method req \<noteq> ''OPTIONS''" and "\<not> isAuthExemptPath (path req)"
    and "extractSessionId e req = Inr (Some sid)" and "sid \<noteq> []"
    and "session_accounts (committed s) sid = a # rest"
    and "password_must_change a = Some True"
  shows "fst (auth_gate e req s) =
           (if path req \<in> {''/auth/change-password'', ''/auth/logout'', ''/auth/me'', ''/health''}
            then Next (Some (sid, normalizeUserRow a))
            else Respond \<lparr>code = 403, body = ErrorBody ''Password change required'',
                          cookie = CookieUntouched\<rparr>)
       \<and> fst (auth_gate e req (snd (auth_gate e req0 s))) = fst (auth_gate e req s)"
proof -
  have later: "faults (snd (auth_gate e req0 s)) = []"
    "session_accounts (committed (snd (auth_gate e req0 s))) sid = a # rest"
    using gate_keeps_accounts [OF assms(1), of e req0 sid] assms(6) by simp_all
  show ?thesis
    using gate_must_change [OF assms]
      gate_must_change [OF later(1) assms(2,3,4,5) later(2) assms(7)]
    by simp
qed

theorem must_change_password_gate_witness:
  "fst (auth_gate env0 ((get_request ''/contracts'')\<lparr>x_session_id := Some ''s1''\<rparr>) store0) =
     Respond \<lparr>code = 403, body = ErrorBody ''Password change required'',
              cookie = CookieUntouched\<rparr>
   \<and> fst (auth_gate env0 ((get_request ''/contracts'')\<lparr>x_session_id := Some ''s1''\<rparr>)
            (snd (auth_gate env0 ((get_request ''/auth/me'')\<lparr>x_session_id := Some ''s1''\<rparr>) store0)))
     = fst (auth_gate env0 ((get_request ''/contracts'')\<lparr>x_session_id := Some ''s1''\<rparr>) store0)"
proof -
  let ?req = "(get_request ''/contracts'')\<lparr>x_session_id := Some ''s1''\<rparr>"
  have 1: "faults store0 = []"
    by (simp add: store0_def)
  have 2: "req_method ?req \<noteq> ''OPTIONS''"
    by (simp add: get_request_def)
  have 3: "\<not> isAuthExemptPath (path ?req)"
    by (simp add: get_request_def isAuthExemptPath_def AUTH_EXEMPT_PATHS_def
        strip_trailing_slashes_def endsWith_def)
  have 4: "extractSessionId env0 ?req = Inr (Some ''s1'')"
    by (simp add: extractSessionId_def session_cookie_def header_token_def get_request_def
        trim_def is_whitespace_def)
  have 5: "''s1'' \<noteq> []"
    by simp
  have 6: "session_accounts (committed store0) ''s1'' = alice # []"
    by (simp add: session_accounts_def store0_def db0_def alice_def)
  have 7: "password_must_change alice = Some True"
    by (simp add: alice_def)
  from must_change_password_gate [OF 1 2 3 4 5 6 7,
      of "(get_request ''/auth/me'')\<lparr>x_session_id := Some ''s1''\<rparr>"]
  show ?thesis
    by (simp add: get_request_def)
qed

section \<open>Login\<close>

subsection \<open>What one round trip does to the store\<close>

lemma send_effect:
  "send st s = (f, s1) \<Longrightarrow>
     client_log s1 = client_log s @ [st] \<and> committed s1 = committed s \<and>
     checked_out s1 = checked_out s \<and> txn s1 = txn s"
  by (auto simp: send_def next_fault_def split: list.splits)

lemma send_ok:
  "faults s = [] \<Longrightarrow> send st s = (None, s\<lparr>client_log := client_log s @ [st]\<rparr>)"
  by (simp add: send_def next_fault_def)

lemma client_rollback_effect:
  "client_rollback s = (res, s1) \<Longrightarrow>
     client_log s1 = client_log s @ [ROLLBACK] \<and> committed s1 = committed s \<and>
     checked_out s1 = checked_out s"
  by (auto simp: client_rollback_def split: prod.splits option.splits dest: send_effect)

lemma client_begin_effect:
  "client_begin s = (res, s1) \<Longrightarrow>
     client_log s1 = client_log s @ [BEGIN] \<and> committed s1 = committed s \<and>
     checked_out s1 = checked_out s \<and> (isl res \<or> txn s1 = Some (committed s))"
  by (auto simp: client_begin_def split: prod.splits option.splits dest: send_effect)

lemma client_query_effect:
  "client_query q s = (res, s1) \<Longrightarrow> txn s = Some w \<Longrightarrow>
     client_log s1 = client_log s @ [STATEMENT] \<and> committed s1 = committed s \<and>
     checked_out s1 = checked_out s \<and>
     (case res of
        Inl x \<Rightarrow> txn s1 = Some w
      | Inr r \<Rightarrow> r = fst (q w) \<and> txn s1 = Some (snd (q w)))"
  by (auto simp: client_query_def split: prod.splits option.splits dest: send_effect)

lemma client_commit_effect:
  "client_commit s = (res, s1) \<Longrightarrow> txn s = Some w \<Longrightarrow>
     client_log s1 = client_log s @ [COMMIT] \<and> checked_out s1 = checked_out s \<and>
     (case res of Inl x \<Rightarrow> committed s1 = committed s | Inr r \<Rightarrow> committed s1 = w)"
  by (auto simp: client_commit_def split: prod.splits option.splits dest: send_effect)

lemma pool_connect_effect:
  "pool_connect s = (res, s1) \<Longrightarrow>
     client_log s1 = client_log s \<and> committed s1 = committed s \<and>
     checked_out s1 = (if isl res then checked_out s else Suc (checked_out s))"
  by (auto simp: pool_connect_def next_fault_def split: prod.splits option.splits list.splits)

lemma client_release_effect:
  "client_log (client_release s) = client_log s \<and>
   committed (client_release s) = committed s \<and>
   checked_out (client_release s) = checked_out s - 1"
  by (simp add: client_release_def)

lemma select_credentials_match:
  "select_credentials e u pw d =
     ((case credential_match e d u pw of None \<Rightarrow> [] | Some a \<Rightarrow> [a]), d)"
  by (simp add: select_credentials_def credential_match_def take1_filter_find)

subsection \<open>The stages of the \<open>try\<close> block\<close>

lemma login_reject_effect:
  "login_reject r s = (res, client, s1) \<Longrightarrow>
     client \<and> client_log s1 = client_log s @ [ROLLBACK] \<and> committed s1 = committed s \<and>
     checked_out s1 = checked_out s \<and> (isl res \<or> res = Inr r)"
  by (auto simp: login_reject_def split: prod.splits sum.splits dest: client_rollback_effect)

lemma login_commit_effect:
  assumes "login_commit e uuid a s = (res, client, s1)" and "txn s = Some w"
  shows "checked_out s1 = (if client then checked_out s else checked_out s - 1) \<and>
     (case res of
        Inl x \<Rightarrow> client \<and> committed s1 = committed s \<and>
                 (\<exists>mid. client_log s1 = client_log s @ mid)
      | Inr r \<Rightarrow> \<not> client \<and> code r = 200 \<and> committed s1 = logged_in a uuid w \<and>
                 client_log s1 = client_log s @ [STATEMENT, STATEMENT, COMMIT])"
  using assms
  by (auto simp: login_commit_def logged_in_def client_release_effect setSessionCookie_def
      update_login_def insert_session_def
      split: prod.splits sum.splits dest!: client_query_effect client_commit_effect)

lemma login_verify_effect:
  assumes "login_verify e uuid u pw s = (res, client, s1)" and "txn s = Some w"
  shows "checked_out s1 = (if client then checked_out s else checked_out s - 1) \<and>
     (case res of
        Inl x \<Rightarrow> client \<and> committed s1 = committed s \<and>
                 (\<exists>mid. client_log s1 = client_log s @ mid)
      | Inr r \<Rightarrow>
          if code r = 200
          then \<not> client \<and>
               (\<exists>a. credential_match e w (toLowerCase (trim u)) pw = Some a \<and>
                    committed s1 = logged_in a uuid w) \<and>
               client_log s1 = client_log s @ [STATEMENT, STATEMENT, STATEMENT, COMMIT]
          else client \<and> committed s1 = committed s \<and>
               (\<exists>mid. client_log s1 = client_log s @ mid @ [ROLLBACK]))"
proof -
  obtain rows s0
    where q: "client_query (select_credentials e (toLowerCase (trim u)) pw) s = (rows, s0)"
    by (cases "client_query (select_credentials e (toLowerCase (trim u)) pw) s")
  note eff = client_query_effect [OF q assms(2)]
  show ?thesis
    using assms(1) eff q
    by (auto simp: login_verify_def select_credentials_match json_error_def
        split: sum.splits list.splits if_splits option.splits
        dest!: login_reject_effect login_commit_effect)
qed

lemma login_try_effect:
  assumes "login_try e uuid b s = (res, client, s1)"
  shows "checked_out s1 = (if client then Suc (checked_out s) else checked_out s) \<and>
     (case res of
        Inl x \<Rightarrow> committed s1 = committed s \<and>
                 (if client then \<exists>mid. client_log s1 = client_log s @ BEGIN # mid
                  else client_log s1 = client_log s)
      | Inr r \<Rightarrow>
          if code r = 200
          then \<not> client \<and>
               (\<exists>u pw a. body_username b = Some u \<and> body_password b = Some pw \<and>
                    credential_match e (committed s) (toLowerCase (trim u)) pw = Some a \<and>
                    committed s1 = logged_in a uuid (committed s)) \<and>
               client_log s1 = client_log s @ [BEGIN, STATEMENT, STATEMENT, STATEMENT, COMMIT]
          else committed s1 = committed s \<and>
               (if client then \<exists>mid. client_log s1 = client_log s @ BEGIN # mid @ [ROLLBACK]
                else client_log s1 = client_log s))"
  using assms
  by (auto simp: login_try_def json_error_def
      split: sum.splits list.splits if_splits option.splits prod.splits
      dest!: pool_connect_effect client_begin_effect login_verify_effect)

lemma login_no_faults:
  assumes "faults s = []"
    and "body_username b = Some u" and "body_password b = Some pw"
    and "u \<noteq> []" and "pw \<noteq> []"
  shows "login e uuid b s =
     (case credential_match e (committed s) (toLowerCase (trim u)) pw of
        None \<Rightarrow>
          (\<lparr>code = 401, body = ErrorBody ''Invalid username or password'',
            cookie = CookieUntouched\<rparr>,
           s\<lparr>client_log := client_log s @ [BEGIN, STATEMENT, ROLLBACK], txn := None\<rparr>)
      | Some a \<Rightarrow>
          if normalizedStatus a = ''active'' \<or> normalizedStatus a = ''pending''
          then (\<lparr>code = 200, body = LoginBody uuid (normalizeUserRow a),
                 cookie = SetCookie (SESSION_COOKIE_NAME e) uuid\<rparr>,
                s\<lparr>client_log := client_log s @ [BEGIN, STATEMENT, STATEMENT, STATEMENT, COMMIT],
                  txn := None, committed := logged_in a uuid (committed s)\<rparr>)
          else
            (\<lparr>code = 403,
              body = ErrorBody (if normalizedStatus a = ''inactive''
                                then ''User account is inactive''
                                else ''User status does not permit login''),
              cookie = CookieUntouched\<rparr>,
             s\<lparr>client_log := client_log s @ [BEGIN, STATEMENT, ROLLBACK], txn := None\<rparr>))"
  using assms
  by (auto simp: login_def login_try_def login_verify_def login_reject_def login_commit_def
      pool_connect_def next_fault_def client_begin_def client_query_def client_commit_def
      client_rollback_def client_release_def send_ok select_credentials_match json_error_def
      setSessionCookie_def USER_STATUSES_def logged_in_def case_prod_beta
      split: option.splits)

lemma logged_in_session:
  "\<lparr>session_id = uuid, session_user_id = user_id a, last_seen_at = None\<rparr>
     \<in> set (user_sessions (logged_in a uuid d))
   \<and> user_accounts (logged_in a uuid d) =
       map (\<lambda>x. if user_id x = user_id a
                 then x\<lparr>status := (if status x = Some ''pending'' then Some ''active'' else status x),
                        last_login_at := Some (clock d)\<rparr>
                 else x)
           (user_accounts d)"
  by (simp add: logged_in_def insert_session_def update_login_def)

text \<open>
  \<^bold>\<open>C4\<close>. Login is atomic, whatever the store does: for every schedule of failures, every
  body and every store, the login handler leaves as many clients checked out as it found
  (the client it took is released on every exit); if it answers 200, the committed
  database is the old one with the account promoted, its last login refreshed and the
  session row inserted, and the client has sent exactly \<open>BEGIN\<close>, the credential check, the
  update, the insert and \<open>COMMIT\<close>; if it answers anything else (400, 401, 403 or 500), the
  committed database is the old one, and either no statement was sent or the statements
  sent start with \<open>BEGIN\<close> and end with \<open>ROLLBACK\<close>.
\<close>

theorem login_atomic:
  "case login e uuid b s of
     (r, s') \<Rightarrow>
       checked_out s' = checked_out s \<and>
       (if code r = 200
        then (\<exists>u pw a. body_username b = Some u \<and> body_password b = Some pw \<and>
                 credential_match e (committed s) (toLowerCase (trim u)) pw = Some a \<and>
                 committed s' = logged_in a uuid (committed s)) \<and>
             client_log s' = client_log s @ [BEGIN, STATEMENT, STATEMENT, STATEMENT, COMMIT]
        else committed s' = committed s \<and>
             (client_log s' = client_log s \<or>
              (\<exists>mid. client_log s' = client_log s @ BEGIN # mid @ [ROLLBACK])))"
proof -
  obtain res client s1 where t: "login_try e uuid b s = (res, client, s1)"
    by (cases "login_try e uuid b s")
  obtain rb s2 where rb: "client_rollback s1 = (rb, s2)"
    by (cases "client_rollback s1")
  from login_try_effect [OF t] client_rollback_effect [OF rb] show ?thesis
    by (auto simp: login_def t rb client_release_effect internal_error_def json_error_def
        split: sum.splits if_splits)
qed

text \<open>
  An instance: the insert of the session row fails, after the account was promoted inside
  the transaction. The answer is 500 and nothing of the promotion is committed.
\<close>

theorem login_atomic_witness:
  "(case login env0 ''uuid-1'' (alice_login ''secret'')
           (store0\<lparr>faults := [None, None, None, None, Some ''boom'']\<rparr>) of
      (r, s') \<Rightarrow>
        checked_out s' = 0 \<and> code r = 500 \<and> committed s' = db0 \<and>
        client_log s' = [BEGIN, STATEMENT, STATEMENT, STATEMENT, ROLLBACK])"
proof -
  have "fst (login env0 ''uuid-1'' (alice_login ''secret'')
               (store0\<lparr>faults := [None, None, None, None, Some ''boom'']\<rparr>))
        = \<lparr>code = 500, body = ErrorBody ''Internal server error, boom'', cookie = CookieUntouched\<rparr>
      \<and> client_log (snd (login env0 ''uuid-1'' (alice_login ''secret'')
               (store0\<lparr>faults := [None, None, None, None, Some ''boom'']\<rparr>)))
        = [BEGIN, STATEMENT, STATEMENT, STATEMENT, ROLLBACK]"
    by code_simp
  with login_atomic [where e = env0 and uuid = "''uuid-1''" and b = "alice_login ''secret''"
        and s = "store0\<lparr>faults := [None, None, None, None, Some ''boom'']\<rparr>"]
  show ?thesis
    by (auto simp: store0_def split: prod.splits)
qed

lemma login_missing_field:
  "supplied b = None \<Longrightarrow>
   login e uuid b s =
     (\<lparr>code = 400, body = ErrorBody ''username and password are required'',
       cookie = CookieUntouched\<rparr>, s)"
  by (auto simp: supplied_def login_def login_try_def json_error_def
      split: option.splits if_splits)

text \<open>
  \<^bold>\<open>C3\<close>, as amended. A body that lacks a username or a password, or carries an empty
  one, is answered 400 \<open>username and password are required\<close>. When both are there and
  the store answers: if no stored account has the trimmed, lowercased username together
  with a hash that the password matches, the answer is 401 with the one message
  \<open>Invalid username or password\<close>, the same whether the username is unknown or the
  password wrong; if there is such an account, the answer depends on its status, trimmed
  and lowercased: \<open>active\<close> or \<open>pending\<close> gives 200 with the new session identifier, which
  is also set as the cookie, and the login is committed; \<open>inactive\<close> gives 403
  \<open>User account is inactive\<close>; anything else gives 403 \<open>User status does not permit login\<close>.
\<close>

theorem login_outcomes:
  assumes "faults s = []"
  shows "case supplied b of
           None \<Rightarrow>
             fst (login e uuid b s) =
               \<lparr>code = 400, body = ErrorBody ''username and password are required'',
                cookie = CookieUntouched\<rparr>
         | Some (u, pw) \<Rightarrow>
             (case credential_match e (committed s) (toLowerCase (trim u)) pw of
                None \<Rightarrow>
                  fst (login e uuid b s) =
                    \<lparr>code = 401, body = ErrorBody ''Invalid username or password'',
                     cookie = CookieUntouched\<rparr>
              | Some a \<Rightarrow>
                  if normalizedStatus a = ''active'' \<or> normalizedStatus a = ''pending''
                  then fst (login e uuid b s) =
                         \<lparr>code = 200, body = LoginBody uuid (normalizeUserRow a),
                          cookie = SetCookie (SESSION_COOKIE_NAME e) uuid\<rparr>
                       \<and> committed (snd (login e uuid b s)) = logged_in a uuid (committed s)
                  else if normalizedStatus a = ''inactive''
                  then fst (login e uuid b s) =
                         \<lparr>code = 403, body = ErrorBody ''User account is inactive'',
                          cookie = CookieUntouched\<rparr>
                  else fst (login e uuid b s) =
                         \<lparr>code = 403, body = ErrorBody ''User status does not permit login'',
                          cookie = CookieUntouched\<rparr>)"
proof (cases "supplied b")
  case None
  then show ?thesis
    by (simp add: login_missing_field)
next
  case (Some c)
  obtain u pw where c: "c = (u, pw)"
    by (cases c)
  with Some have "body_username b = Some u" "body_password b = Some pw" "u \<noteq> []" "pw \<noteq> []"
    by (auto simp: supplied_def split: option.splits if_splits)
  from login_no_faults [OF assms this, of e uuid] Some c show ?thesis
    by (simp split: option.splits)
qed

theorem login_outcomes_witness:
  "fst (login env0 ''uuid-1'' (alice_login ''secret'') store0) =
     \<lparr>code = 200, body = LoginBody ''uuid-1'' (normalizeUserRow alice),
      cookie = SetCookie ''cm_session'' ''uuid-1''\<rparr>
   \<and> committed (snd (login env0 ''uuid-1'' (alice_login ''secret'') store0)) =
       logged_in alice ''uuid-1'' (committed store0)"
proof -
  have 1: "faults store0 = []"
    by (simp add: store0_def)
  have 2: "supplied (alice_login ''secret'') = Some (''user@example.com'', ''secret'')"
    by (simp add: alice_login_def supplied_def)
  have m: "credential_match env0 (committed store0) (toLowerCase (trim ''user@example.com''))
             ''secret'' = Some alice"
    by (simp add: credential_match_def password_matches_def store0_def db0_def alice_def
        env0_def toLowerCase_def toLowerCase_char_def trim_def is_whitespace_def)
  have n: "normalizedStatus alice = ''pending''"
    by (simp add: normalizedStatus_def alice_def toLowerCase_def toLowerCase_char_def
        trim_def is_whitespace_def)
  have c: "SESSION_COOKIE_NAME env0 = ''cm_session''"
    by (simp add: env0_def)
  from login_outcomes [OF 1, where b = "alice_login ''secret''" and e = env0
      and uuid = "''uuid-1''"]
  show ?thesis
    by (simp add: 2 m n c)
qed

text \<open>
  As the specification states it, for every password, the property fails at an empty
  one. The seeded account exists and the empty password is wrong for it (no account
  matches), yet the answer is 400, not 401: the handler rejects an empty or missing field
  before it looks at the store.
\<close>

theorem login_empty_password_counterexample:
  "credential_match env0 (committed store0) (toLowerCase (trim ''user@example.com'')) [] = None
   \<and> fst (login env0 ''uuid-1'' (alice_login []) store0) =
       \<lparr>code = 400, body = ErrorBody ''username and password are required'',
        cookie = CookieUntouched\<rparr>"
  by (simp add: credential_match_def password_matches_def store0_def db0_def alice_def
      env0_def toLowerCase_def toLowerCase_char_def trim_def is_whitespace_def
      login_def login_try_def alice_login_def json_error_def)

section \<open>Extracting the session identifier\<close>

lemma join_split: "join [sep] (split sep s) = s"
proof (induction s)
  case Nil
  then show ?case by simp
next
  case (Cons c cs)
  obtain w ws where "split sep cs = w # ws"
    using split_not_Nil [of sep cs] by (cases "split sep cs") auto
  with Cons show ?case by (cases ws) auto
qed

lemma split_head_rest:
  "\<exists>rest. split sep s = takeWhile (\<lambda>x. x \<noteq> sep) s # rest \<and>
          join [sep] rest = drop (Suc (length (takeWhile (\<lambda>x. x \<noteq> sep) s))) s"
proof (induction s)
  case Nil
  then show ?case by simp
next
  case (Cons c cs)
  show ?case
  proof (cases "c = sep")
    case True
    then show ?thesis by (simp add: join_split)
  next
    case False
    with Cons show ?thesis by auto
  qed
qed

lemma find_session_cookie_map_of:
  "find_session_cookie nm cs =
     map_of (map (\<lambda>c. (takeWhile (\<lambda>x. x \<noteq> CHR ''='') (trim c),
                        drop (Suc (length (takeWhile (\<lambda>x. x \<noteq> CHR ''='') (trim c)))) (trim c)))
                 cs) nm"
proof (induction cs)
  case Nil
  then show ?case by simp
next
  case (Cons c cs)
  obtain rest
    where "split CHR ''='' (trim c) = takeWhile (\<lambda>x. x \<noteq> CHR ''='') (trim c) # rest"
      and "join ''='' rest = drop (Suc (length (takeWhile (\<lambda>x. x \<noteq> CHR ''='') (trim c)))) (trim c)"
    using split_head_rest [of "CHR ''=''" "trim c"] by auto
  with Cons show ?case by auto
qed

lemma session_cookie_named: "session_cookie e req = named_cookie e req"
  by (auto simp: session_cookie_def named_cookie_def cookie_pairs_def find_session_cookie_map_of
      split: option.splits)

text \<open>
  The order of the three sources. The named cookie, when the header has one, decides
  alone: its text is decoded, and what the decoding gives (a value, or an exception) is
  what the extraction gives. The \<open>X-Session-Id\<close> header counts when its trimmed text is
  not empty, the bearer token after that.
\<close>

lemma extractSessionId_order:
  "extractSessionId e req =
     (case named_cookie e req of
        Some raw \<Rightarrow> (case decodeURIComponent e raw of Inl x \<Rightarrow> Inl x | Inr v \<Rightarrow> Inr (Some v))
      | None \<Rightarrow>
          (case x_session_id req of
             Some t \<Rightarrow> if trim t \<noteq> [] then Inr (Some (trim t)) else Inr (bearer_token req)
           | None \<Rightarrow> Inr (bearer_token req)))"
  by (simp add: extractSessionId_def session_cookie_named header_token_def split: option.splits)

lemma extractSessionId_none:
  "cookie_header req = None \<Longrightarrow> x_session_id req = None \<Longrightarrow> authorization req = None \<Longrightarrow>
   extractSessionId e req = Inr None"
  by (simp add: extractSessionId_order named_cookie_def bearer_token_def)

text \<open>
  \<^bold>\<open>C6\<close>. The extraction is to return the value of the named session cookie whenever that
  cookie is present. At the header \<open>Cookie: cm_session=%\<close> the cookie is present and the
  extraction returns nothing: \<open>decodeURIComponent\<close> throws, and nothing in
  \<open>extractSessionId\<close> catches it.
\<close>

theorem extractSessionId_malformed_cookie:
  "named_cookie env0 malformed_logout = Some ''%''
   \<and> extractSessionId env0 malformed_logout = Inl (Exn ''URIError'' ''URI malformed'')"
  by (simp add: extractSessionId_order named_cookie_def cookie_pairs_def malformed_logout_def
      env0_def trim_def is_whitespace_def)

text \<open>
  The same request, sent to a gated path, is answered 500 by the gate, not 401.
\<close>

lemma gate_malformed_cookie:
  "auth_gate env0 (malformed_logout\<lparr>path := ''/contracts''\<rparr>) store0 =
     (Respond \<lparr>code = 500, body = ErrorBody ''Internal server error, URI malformed'',
               cookie = CookieUntouched\<rparr>, store0)"
proof -
  have "\<not> isAuthExemptPath ''/contracts''"
    by (simp add: isAuthExemptPath_def AUTH_EXEMPT_PATHS_def strip_trailing_slashes_def
        endsWith_def)
  moreover have "extractSessionId env0 (malformed_logout\<lparr>path := ''/contracts''\<rparr>)
      = Inl (Exn ''URIError'' ''URI malformed'')"
    by (simp add: extractSessionId_order named_cookie_def cookie_pairs_def malformed_logout_def
        env0_def trim_def is_whitespace_def)
  ultimately show ?thesis
    by (simp add: auth_gate_def malformed_logout_def internal_error_def json_error_def
        err_text_def)
qed

section \<open>Logout\<close>

lemma logout_ok:
  assumes "faults s = []" and "extractSessionId e req = Inr sid"
  shows "logout e req s =
     (\<lparr>code = 204, body = NoBody, cookie = ClearCookie (SESSION_COOKIE_NAME e)\<rparr>,
      case sid of
        None \<Rightarrow> s
      | Some i \<Rightarrow> if i = [] then s else s\<lparr>committed := snd (delete_session i (committed s))\<rparr>)"
  using assms
  by (auto simp: logout_def pool_query_ok clearSessionCookie_def split: option.splits)

text \<open>
  When the identifier can be extracted and the store answers, logout is idempotent: the
  answer is 204 with the cookie cleared, a second call finds the same store and gives the
  same answer, and no row of the identifier is left.
\<close>

lemma logout_idempotent:
  assumes "faults s = []" and "extractSessionId e req = Inr sid"
  shows "fst (logout e req s) =
           \<lparr>code = 204, body = NoBody, cookie = ClearCookie (SESSION_COOKIE_NAME e)\<rparr>
       \<and> logout e req (snd (logout e req s)) = logout e req s
       \<and> (\<forall>i. sid = Some i \<longrightarrow> i \<noteq> [] \<longrightarrow>
             i \<notin> session_id ` set (user_sessions (committed (snd (logout e req s)))))"
  using assms
  by (auto simp: logout_ok delete_session_def split: option.splits)

text \<open>
  \<^bold>\<open>C5\<close>. Logout is to answer 204 and clear the session cookie on every request. At a
  request whose session cookie does not decode, it answers 500 and leaves the cookie
  alone: the exception of \<open>extractSessionId\<close> lands in the handler's \<open>catch\<close>.
\<close>

theorem logout_malformed_cookie:
  "logout env0 malformed_logout store0 =
     (\<lparr>code = 500, body = ErrorBody ''Internal server error, URI malformed'',
       cookie = CookieUntouched\<rparr>, store0)
   \<and> app env0 (\<lambda>req ctx. logout env0 req) malformed_logout store0 =
     (\<lparr>code = 500, body = ErrorBody ''Internal server error, URI malformed'',
       cookie = CookieUntouched\<rparr>, store0)"
proof -
  have handler: "logout env0 malformed_logout store0 =
     (\<lparr>code = 500, body = ErrorBody ''Internal server error, URI malformed'',
       cookie = CookieUntouched\<rparr>, store0)"
    by (simp add: logout_def extractSessionId_order named_cookie_def cookie_pairs_def
        malformed_logout_def env0_def trim_def is_whitespace_def internal_error_def
        json_error_def err_text_def)
  have "cors malformed_logout = None"
    by (simp add: cors_def malformed_logout_def)
  moreover have "isAuthExemptPath (path malformed_logout)"
    by (simp add: isAuthExemptPath_def AUTH_EXEMPT_PATHS_def strip_trailing_slashes_def
        malformed_logout_def)
  then have "auth_gate env0 malformed_logout store0 = (Next None, store0)"
    by (simp add: auth_gate_def)
  ultimately show ?thesis
    using handler by (simp add: app_def)
qed

section \<open>Sanitizing a contract payload\<close>

lemma obj_get_set: "obj_get (obj_set k v obj) k' = (if k' = k then Some v else obj_get obj k')"
  by (induction obj) (auto simp: obj_get_def)

lemma obj_get_Nil: "obj_get [] k = None"
  by (simp add: obj_get_def)

lemma create_loop_get:
  "obj_get (create_loop e p ks data) k =
     (if k \<in> set ks \<and> included_on_create (obj_get p k) \<noteq> None
      then map_option (sanitize_value e k) (obj_get p k)
      else obj_get data k)"
proof (induction ks arbitrary: data)
  case Nil
  then show ?case by simp
next
  case (Cons a ks)
  then show ?case
    by (cases "obj_get p a"; cases "the (obj_get p a)")
       (auto simp: obj_get_set included_on_create_def)
qed

lemma patch_loop_get:
  "obj_get (patch_loop e p ks data) k =
     (if k \<in> set ks \<and> obj_get p k \<noteq> None
      then map_option (sanitize_value e k) (obj_get p k)
      else obj_get data k)"
proof (induction ks arbitrary: data)
  case Nil
  then show ?case by simp
next
  case (Cons a ks)
  then show ?case
    by (cases "obj_get p a") (auto simp: obj_get_set)
qed

lemma no_boolean_word:
  "boolean_word (toLowerCase (trim ''null'')) = None"
  "boolean_word (toLowerCase (trim ''undefined'')) = None"
  by code_simp+

lemma lower_trim_Nil: "toLowerCase (trim []) = []"
  by (simp add: trim_def toLowerCase_def)

lemma coerceBoolean_words:
  "coerceBoolean e v = (case boolean_of e v of Some b \<Rightarrow> JBool b | None \<Rightarrow> JNull)"
proof (cases v)
  case (JStr s)
  show ?thesis
  proof (cases "s = []")
    case True
    with JStr show ?thesis
      by (simp add: coerceBoolean_def boolean_of_def boolean_word_def ToString_def lower_trim_Nil)
  next
    case False
    with JStr show ?thesis
      by (simp add: coerceBoolean_def boolean_of_def boolean_word_def ToString_def Let_def
          del: set_simps)
  qed
next
  case (JNum n)
  then show ?thesis
    by (simp add: coerceBoolean_def boolean_of_def boolean_word_def ToString_def Let_def
        del: set_simps)
qed (simp_all add: coerceBoolean_def boolean_of_def ToString_def no_boolean_word)

lemma auto_renew_not_integer: "''auto_renew'' \<notin> set INTEGER_FIELDS"
  by (simp add: INTEGER_FIELDS_def)

lemma sanitize_auto_renew:
  "sanitize_value e ''auto_renew'' v = (case boolean_of e v of Some b \<Rightarrow> JBool b | None \<Rightarrow> JNull)"
  by (simp add: sanitize_value_def auto_renew_not_integer coerceBoolean_words Let_def
      split: option.splits)

lemma sanitize_integer:
  assumes "k \<in> set INTEGER_FIELDS"
  shows "sanitize_value e k v =
     (if v = JNull \<or> v = JUndefined \<or> v = JStr [] then JNull
      else (case ToNumber e v of
              Fin q \<Rightarrow> JNum (Fin (of_int (if q < 0 then \<lceil>q\<rceil> else \<lfloor>q\<rfloor>)))
            | _ \<Rightarrow> JNull))"
proof -
  from assms have "k \<noteq> ''auto_renew''"
    using auto_renew_not_integer by blast
  with assms show ?thesis
    by (simp add: sanitize_value_def coerceInteger_def isFinite_def trunc_def Let_def
        split: jsnum.splits del: set_simps)
qed

lemma sanitize_text:
  "k \<noteq> ''auto_renew'' \<Longrightarrow> k \<notin> set INTEGER_FIELDS \<Longrightarrow>
   sanitize_value e k v =
     (case v of JStr s \<Rightarrow> if trim s = [] then JNull else JStr (trim s) | _ \<Rightarrow> v)"
  by (simp add: sanitize_value_def Let_def split: jsval.splits del: set_simps)

lemma sanitize_null: "sanitize_value e k JNull = JNull"
  by (simp add: sanitize_value_def coerceBoolean_def coerceInteger_def Let_def del: set_simps)

text \<open>
  \<^bold>\<open>C7\<close>. What the two sanitizers store under a key \<open>k\<close>. On create, a whitelisted field
  is stored when the payload has it and it is not \<open>undefined\<close>; on patch, whenever the
  payload has the key, an explicit \<open>null\<close> included (and stored as \<open>null\<close>); a key outside
  the whitelist is never stored. The stored value is the sanitized one: for the boolean
  field, \<open>true\<close> or \<open>false\<close> by the fixed vocabulary and \<open>null\<close> for anything else; for an
  integer field, \<open>null\<close> for \<open>null\<close>, \<open>undefined\<close> and the empty string, the truncated number
  when the numeric parse is finite, and \<open>null\<close> when it is not; for any other field, a
  string trimmed, or \<open>null\<close> when nothing is left of it, and any other value as it is.
\<close>

theorem sanitize_payloads:
  "obj_get (sanitizeCreatePayload e p) k =
     (if k \<in> set FIELDS
      then map_option (sanitize_value e k) (included_on_create (obj_get p k)) else None)
   \<and> obj_get (sanitizePatchPayload e p) k =
     (if k \<in> set FIELDS then map_option (sanitize_value e k) (obj_get p k) else None)
   \<and> sanitize_value e ''auto_renew'' v =
       (case boolean_of e v of Some b \<Rightarrow> JBool b | None \<Rightarrow> JNull)
   \<and> (k \<in> set INTEGER_FIELDS \<longrightarrow>
        sanitize_value e k v =
          (if v = JNull \<or> v = JUndefined \<or> v = JStr [] then JNull
           else (case ToNumber e v of
                   Fin q \<Rightarrow> JNum (Fin (of_int (if q < 0 then \<lceil>q\<rceil> else \<lfloor>q\<rfloor>)))
                 | _ \<Rightarrow> JNull)))
   \<and> (k \<noteq> ''auto_renew'' \<longrightarrow> k \<notin> set INTEGER_FIELDS \<longrightarrow>
        sanitize_value e k v =
          (case v of JStr s \<Rightarrow> if trim s = [] then JNull else JStr (trim s) | _ \<Rightarrow> v))
   \<and> sanitize_value e k JNull = JNull"
proof -
  have "obj_get (sanitizeCreatePayload e p) k =
     (if k \<in> set FIELDS
      then map_option (sanitize_value e k) (included_on_create (obj_get p k)) else None)"
    by (auto simp: sanitizeCreatePayload_def create_loop_get obj_get_Nil included_on_create_def
        simp del: set_simps split: option.splits jsval.splits)
  moreover have "obj_get (sanitizePatchPayload e p) k =
     (if k \<in> set FIELDS then map_option (sanitize_value e k) (obj_get p k) else None)"
    using obj_get_Nil [of k]
    by (cases "obj_get p k")
       (simp_all add: sanitizePatchPayload_def patch_loop_get del: set_simps)
  ultimately show ?thesis
    using sanitize_auto_renew [of e v] sanitize_integer [of k e v] sanitize_text [of k e v]
      sanitize_null [of e k]
    by blast
qed

theorem sanitize_payloads_witness:
  "obj_get (sanitizeCreatePayload env0 payload0) ''status_id'' = Some (JNum (Fin 12))
   \<and> obj_get (sanitizePatchPayload env0 payload0) ''status_id'' = Some (JNum (Fin 12))
   \<and> obj_get (sanitizePatchPayload env0 payload0) ''notes'' = Some JNull
   \<and> obj_get (sanitizeCreatePayload env0 payload0) ''owner_secret'' = None
   \<and> obj_get (sanitizeCreatePayload env0 payload0) ''end_date'' = None"
proof -
  have f: "''status_id'' \<in> set FIELDS" "''notes'' \<in> set FIELDS"
    "''owner_secret'' \<notin> set FIELDS" "''end_date'' \<in> set FIELDS"
    by (simp_all add: FIELDS_def)
  have i: "''status_id'' \<in> set INTEGER_FIELDS"
    by (simp add: INTEGER_FIELDS_def)
  have g: "obj_get payload0 ''status_id'' = Some (JStr ''12'')"
    "obj_get payload0 ''notes'' = Some JNull" "obj_get payload0 ''end_date'' = None"
    by (simp_all add: payload0_def obj_get_def)
  have n: "ToNumber env0 (JStr ''12'') = Fin 12"
    by (simp add: ToNumber_def env0_def)
  from sanitize_payloads [where e = env0 and p = payload0 and k = "''status_id''" and v = "JStr ''12''"]
    sanitize_payloads [where e = env0 and p = payload0 and k = "''notes''" and v = JNull]
    sanitize_payloads [where e = env0 and p = payload0 and k = "''owner_secret''" and v = JNull]
    sanitize_payloads [where e = env0 and p = payload0 and k = "''end_date''" and v = JNull]
  show ?thesis
    by (simp add: f i g n included_on_create_def del: set_simps)
qed

section \<open>Resolving names to ids\<close>

lemma select_id_by_name_lookup:
  "select_id_by_name e nm rows = (case name_lookup e rows nm of None \<Rightarrow> [] | Some i \<Rightarrow> [i])"
  by (simp add: select_id_by_name_def name_lookup_def filter_map take_map take1_filter_find
      split: option.splits)

text \<open>
  \<^bold>\<open>C8\<close>. For the department pair and for the status pair alike, when the store answers:
  the resolution raises nothing and returns the data with every other key as it was; the
  id field is the one given when it is present and not \<open>null\<close>, whatever the name; when
  it is absent or \<open>null\<close> and the name is a string that is not blank, it is the id of the
  first row of the lookup table whose name equals the trimmed name up to case; and when
  no row does, or the name is no such string, it stays as it was, with no error. The name
  field itself is kept in the data.
\<close>

theorem resolve_names:
  assumes "faults s = []"
  shows "\<exists>r. resolveIdsFromNames e data s = (Inr r, s) \<and>
     obj_get r ''department_id'' =
       resolved_id e (departments (committed s))
         (obj_get data ''department_id'') (obj_get data ''department'') \<and>
     obj_get r ''status_id'' =
       resolved_id e (statuses (committed s))
         (obj_get data ''status_id'') (obj_get data ''status'') \<and>
     (\<forall>k. k \<noteq> ''department_id'' \<longrightarrow> k \<noteq> ''status_id'' \<longrightarrow> obj_get r k = obj_get data k)"
  using assms
  by (auto simp: resolveIdsFromNames_def pool_query_ok select_id_by_name_lookup resolved_id_def
      obj_get_set split: option.splits)

theorem resolve_names_witness:
  "\<exists>r. resolveIdsFromNames env0 data0 store0 = (Inr r, store0) \<and>
       obj_get r ''department_id'' = Some (JNum (Fin 1)) \<and>
       obj_get r ''status_id'' = None \<and>
       obj_get r ''status'' = Some (JStr ''archived'')"
proof -
  have 1: "faults store0 = []"
    by (simp add: store0_def)
  have g: "obj_get data0 ''department_id'' = None" "obj_get data0 ''status_id'' = None"
    "obj_get data0 ''department'' = Some (JStr ''Operations'')"
    "obj_get data0 ''status'' = Some (JStr ''archived'')"
    by (simp_all add: data0_def obj_get_def)
  have t: "trim ''Operations'' = ''Operations''" "trim ''archived'' = ''archived''"
    by (simp_all add: trim_def is_whitespace_def)
  have l: "toLowerCase ''Operations'' = ''operations''"
    "toLowerCase ''operations'' = ''operations''" "toLowerCase ''shelters'' = ''shelters''"
    "toLowerCase ''archived'' = ''archived''" "toLowerCase ''pending'' = ''pending''"
    "toLowerCase ''active'' = ''active''"
    by code_simp+
  have d: "name_lookup env0 (departments (committed store0)) ''Operations'' = Some 1"
    by (simp add: name_lookup_def store0_def db0_def env0_def l)
  have s: "name_lookup env0 (statuses (committed store0)) ''archived'' = None"
    by (simp add: name_lookup_def store0_def db0_def env0_def l)
  from resolve_names [OF 1, of env0 data0] obtain r
    where r: "resolveIdsFromNames env0 data0 store0 = (Inr r, store0)"
      and rd: "obj_get r ''department_id'' =
        resolved_id env0 (departments (committed store0))
          (obj_get data0 ''department_id'') (obj_get data0 ''department'')"
      and rs: "obj_get r ''status_id'' =
        resolved_id env0 (statuses (committed store0))
          (obj_get data0 ''status_id'') (obj_get data0 ''status'')"
      and rk: "\<forall>k. k \<noteq> ''department_id'' \<longrightarrow> k \<noteq> ''status_id'' \<longrightarrow> obj_get r k = obj_get data0 k"
    by blast
  have "obj_get r ''department_id'' = Some (JNum (Fin 1))"
    by (simp add: rd resolved_id_def nullish_def nonblank_string_def g t d)
  moreover have "obj_get r ''status_id'' = None"
    by (simp add: rs resolved_id_def nullish_def nonblank_string_def g t s)
  moreover have "obj_get r ''status'' = Some (JStr ''archived'')"
    using rk [rule_format, of "''status''"] by (simp add: g)
  ultimately show ?thesis
    using r by blast
qed

section \<open>Listing contracts\<close>

lemma list_limit_range: "\<exists>n. list_limit e q = Fin n \<and> 1 \<le> n \<and> n \<le> 1000"
  by (cases "ToNumber e q")
     (auto simp: list_limit_def Math_min_def Math_max_def num_truthy_def Let_def)

lemma list_offset_range: "num_le (Fin 0) (list_offset e q)"
  by (cases "ToNumber e q")
     (auto simp: list_offset_def Math_min_def Math_max_def num_truthy_def Let_def)

text \<open>
  \<^bold>\<open>C9\<close>. Whatever the query parameters are, the limit that reaches the query is a number
  from 1 to 1000 and the offset is at least 0; with the parameter absent the limit is 200
  and the offset 0. A limit that parses to a number other than 0 is clamped to the nearest
  bound (a limit of 0, like one that is no number, gives the default 200, which is in
  range), and an offset that parses to a number is raised to 0 when below it.
\<close>

theorem list_pagination:
  "(\<exists>n. list_limit e q = Fin n \<and> 1 \<le> n \<and> n \<le> 1000)
   \<and> num_le (Fin 0) (list_offset e q')
   \<and> list_limit e JUndefined = Fin 200
   \<and> list_offset e JUndefined = Fin 0
   \<and> (\<forall>n. ToNumber e q = Fin n \<longrightarrow> n \<noteq> 0 \<longrightarrow> list_limit e q = Fin (min (max n 1) 1000))
   \<and> (\<forall>n. ToNumber e q' = Fin n \<longrightarrow> list_offset e q' = Fin (max n 0))"
  using list_limit_range [of e q] list_offset_range [of e q']
  by (auto simp: list_limit_def list_offset_def Math_min_def Math_max_def num_truthy_def Let_def
      ToNumber_def)

theorem list_pagination_witness:
  "list_limit env0 (JStr ''5000'') = Fin 1000 \<and> list_offset env0 (JStr ''7'') = Fin 7
   \<and> num_le (Fin 0) (list_offset env0 (JStr ''7''))"
proof -
  have a: "ToNumber env0 (JStr ''5000'') = Fin 5000" "ToNumber env0 (JStr ''7'') = Fin 7"
    by (simp_all add: ToNumber_def env0_def)
  from list_pagination [of env0 "JStr ''5000''" "JStr ''7''"] show ?thesis
    by (simp add: a)
qed

end
